theory Spec2Isabelle
  imports Main "HOL-Library.Word" "HOL-Library.Extended_Nat"
begin

section \<open>Strings\<close>

text \<open>
  A JavaScript string is a finite sequence of UTF-16 code units; \<open>query[i]\<close>,
  \<open>query.length\<close> and \<open>slice\<close> all count code units. A string literal of the
  source is written \<open>lit ''...''\<close>.
\<close>

type_synonym code_unit = "16 word"

type_synonym jsstring = "code_unit list"

definition lit :: "string \<Rightarrow> jsstring" where
  "lit s = map (\<lambda>c. of_nat (of_char c)) s"

text \<open>The statement terminator \<open>;\<close> (U+003B).\<close>

definition semi :: code_unit where
  "semi = 0x3B"

text \<open>
  \<open>String.prototype.trim\<close> removes leading and trailing white space and line
  terminators. ECMAScript's WhiteSpace is TAB, VT, FF, SP, NBSP, ZWNBSP and the
  category Zs; its LineTerminator is LF, CR, LS and PS. All of them are single code
  units.
\<close>

definition js_whitespace :: "code_unit \<Rightarrow> bool" where
  "js_whitespace c \<longleftrightarrow>
     c \<in> set [0x0009, 0x000A, 0x000B, 0x000C, 0x000D, 0x0020, 0x00A0, 0x1680,
               0x2028, 0x2029, 0x202F, 0x205F, 0x3000, 0xFEFF]
     \<or> (0x2000 \<le> c \<and> c \<le> 0x200A)"

definition trim :: "jsstring \<Rightarrow> jsstring" where
  "trim s = rev (dropWhile js_whitespace (rev (dropWhile js_whitespace s)))"

text \<open>The operator \<open>a ?? b\<close> on an optional value.\<close>

definition nullish :: "'a option \<Rightarrow> 'a \<Rightarrow> 'a" where
  "nullish a b = (case a of None \<Rightarrow> b | Some x \<Rightarrow> x)"

text \<open>
  Object spread \<open>{ ...a }\<close> of an optional object: an absent object contributes no
  property.
\<close>

definition spread :: "('k \<rightharpoonup> 'v) option \<Rightarrow> ('k \<rightharpoonup> 'v)" where
  "spread a = (case a of None \<Rightarrow> Map.empty | Some m \<Rightarrow> m)"

text \<open>
  The operator \<open>a || b\<close> on an optional string: the empty string is falsy, as the
  absent value is.
\<close>

definition falsy_or :: "jsstring option \<Rightarrow> jsstring \<Rightarrow> jsstring" where
  "falsy_or a b = (case a of None \<Rightarrow> b | Some x \<Rightarrow> if x = [] then b else x)"


section \<open>Query text rewriting\<close>

text \<open>
  The loop of \<open>removeTrailingSemi\<close>: \<open>for (let i = lastNonSemiIdx; i > 0; i--)\<close>,
  with \<open>i = Suc j\<close>, so that \<open>query[i - 1]\<close> is \<open>query ! j\<close>. The loop leaves
  \<open>lastNonSemiIdx\<close> as it was unless it meets a code unit other than \<open>;\<close>.
\<close>

fun removeTrailingSemi_loop :: "jsstring \<Rightarrow> nat \<Rightarrow> nat \<Rightarrow> nat" where
  "removeTrailingSemi_loop query lastNonSemiIdx 0 = lastNonSemiIdx"
| "removeTrailingSemi_loop query lastNonSemiIdx (Suc j) =
     (if query ! j \<noteq> semi then Suc j
      else removeTrailingSemi_loop query lastNonSemiIdx j)"

definition removeTrailingSemi :: "jsstring \<Rightarrow> jsstring" where
  "removeTrailingSemi query =
     (let lastNonSemiIdx = removeTrailingSemi_loop query (length query) (length query)
      in if lastNonSemiIdx \<noteq> length query then take lastNonSemiIdx query else query)"

definition formatQuery :: "jsstring \<Rightarrow> jsstring \<Rightarrow> jsstring" where
  "formatQuery query format =
     (let query1 = trim query;
          query2 = removeTrailingSemi query1
      in query2 @ lit '' \<newline>FORMAT '' @ format)"

text \<open>
  The specification's wording of the stripping, for comparison with the code: drop the
  maximal run of statement terminators at the very end of the text.
\<close>

definition strip_trailing_terminators_spec :: "jsstring \<Rightarrow> jsstring" where
  "strip_trailing_terminators_spec s = rev (dropWhile (\<lambda>c. c = semi) (rev s))"


section \<open>Data model\<close>

text \<open>
  A thrown \<open>Error\<close> with its message. A rejected promise of a collaborator carries
  a value of the same type.
\<close>

datatype error = Error jsstring

text \<open>The platform's \<open>URL\<close> object. The client reads its \<open>protocol\<close> only.\<close>

record URL =
  href :: jsstring
  protocol :: jsstring

typedecl AbortSignal

typedecl unknown

typedecl ClickHouseLogLevel

text \<open>
  A logger class that the caller configures is known by its name; \<open>DefaultLogger\<close> is
  the library's own. A logger and a log writer are the objects that a \<open>new\<close>
  expression makes: the class and the arguments say which. What running their
  constructors does belongs to the platform, below.
\<close>

datatype LoggerClass = NamedClass jsstring

datatype Logger = DefaultLogger | FromClass LoggerClass

datatype LogWriter = LogWriter Logger "ClickHouseLogLevel option"

type_synonym 'sv ClickHouseSettings = "jsstring \<rightharpoonup> 'sv"

record compression_params =
  decompress_response :: bool
  compress_request :: bool

record 'sv ConnectionParams =
  application_id :: "jsstring option"
  url :: URL
  request_timeout :: nat
  max_open_connections :: enat
  compression :: compression_params
  username :: jsstring
  password :: jsstring
  database :: jsstring
  clickhouse_settings :: "'sv ClickHouseSettings"
  logWriter :: LogWriter

text \<open>The per-call parameter records. Every optional field is an \<open>option\<close>.\<close>

record 'sv BaseQueryParams =
  clickhouse_settings :: "'sv ClickHouseSettings option"
  query_params :: "(jsstring \<rightharpoonup> unknown) option"
  abort_signal :: "AbortSignal option"
  query_id :: "jsstring option"
  session_id :: "jsstring option"

record 'sv QueryParams = "'sv BaseQueryParams" +
  query :: jsstring
  format :: "jsstring option"

record 'sv ExecParams = "'sv BaseQueryParams" +
  query :: jsstring

record ('sv, 'vl) InsertParams = "'sv BaseQueryParams" +
  table :: jsstring
  values' :: 'vl
  format :: "jsstring option"

record CommandResult =
  query_id :: jsstring

text \<open>
  What the client hands to the connection: the object that \<open>getQueryParams\<close>
  returns, and the request descriptors of \<open>query\<close>/\<open>exec\<close> and of \<open>insert\<close>
  built from it.
\<close>

record 'sv ResolvedQueryParams =
  clickhouse_settings :: "'sv ClickHouseSettings"
  query_params :: "(jsstring \<rightharpoonup> unknown) option"
  abort_signal :: "AbortSignal option"
  query_id :: "jsstring option"
  session_id :: "jsstring option"

record 'sv ConnBaseQueryParams =
  query :: jsstring
  clickhouse_settings :: "'sv ClickHouseSettings"
  query_params :: "(jsstring \<rightharpoonup> unknown) option"
  abort_signal :: "AbortSignal option"
  query_id :: "jsstring option"
  session_id :: "jsstring option"

datatype 'st payload = PayloadString jsstring | PayloadStream 'st

record ('sv, 'st) ConnInsertParams =
  query :: jsstring
  values' :: "'st payload"
  clickhouse_settings :: "'sv ClickHouseSettings"
  query_params :: "(jsstring \<rightharpoonup> unknown) option"
  abort_signal :: "AbortSignal option"
  query_id :: "jsstring option"
  session_id :: "jsstring option"

record 'st ConnQueryResult =
  stream :: 'st
  query_id :: jsstring

text \<open>
  Modelled from the spec: the result type of ping, declared outside the sources. The
  spec gives it as \<open>{success, error?}\<close>, the failure carried inline.
\<close>

record PingResult =
  success :: bool
  error :: "error option"


section \<open>Collaborators and their calls\<close>

text \<open>
  Every call the client makes on a collaborator is recorded, in order, as an event. A
  collaborator's answer may depend on its arguments and on everything that happened
  before (the events so far); \<open>Inl e\<close> is a throw or a rejected promise.
\<close>

datatype ('sv, 'st, 'vl) event =
    MakeConnection "'sv ConnectionParams"
  | ConnQuery "'sv ConnBaseQueryParams"
  | ConnExec "'sv ConnBaseQueryParams"
  | ConnInsert "('sv, 'st) ConnInsertParams"
  | ConnPing
  | ConnClose
  | ValidateInsertValues 'vl jsstring
  | EncodeValues 'vl jsstring
  | CloseStream 'st
  | NewLogger Logger
  | NewLogWriter LogWriter

type_synonym ('sv, 'st, 'vl) history = "('sv, 'st, 'vl) event list"

record ('sv, 'st, 'vl, 'ir) Connection =
  conn_query :: "'sv ConnBaseQueryParams \<Rightarrow> ('sv, 'st, 'vl) history \<Rightarrow> error + 'st ConnQueryResult"
  conn_exec :: "'sv ConnBaseQueryParams \<Rightarrow> ('sv, 'st, 'vl) history \<Rightarrow> error + 'st ConnQueryResult"
  conn_insert :: "('sv, 'st) ConnInsertParams \<Rightarrow> ('sv, 'st, 'vl) history \<Rightarrow> error + 'ir"
  conn_ping :: "('sv, 'st, 'vl) history \<Rightarrow> error + PingResult"
  conn_close :: "('sv, 'st, 'vl) history \<Rightarrow> error + unit"

record ('sv, 'st, 'vl) ValuesEncoder =
  validateInsertValues :: "'vl \<Rightarrow> jsstring \<Rightarrow> ('sv, 'st, 'vl) history \<Rightarrow> error + unit"
  encodeValues :: "'vl \<Rightarrow> jsstring \<Rightarrow> ('sv, 'st, 'vl) history \<Rightarrow> error + 'st payload"

record ('sv, 'st, 'vl, 'ir, 'rs) Impl =
  make_connection :: "'sv ConnectionParams \<Rightarrow> ('sv, 'st, 'vl, 'ir) Connection"
  make_result_set :: "'st \<Rightarrow> jsstring \<Rightarrow> jsstring \<Rightarrow> 'rs"
  values_encoder :: "('sv, 'st, 'vl) ValuesEncoder"
  close_stream :: "'st \<Rightarrow> ('sv, 'st, 'vl) history \<Rightarrow> error + unit"

record compression_options =
  response :: "bool option"
  request :: "bool option"

record log_options =
  LoggerClass :: "LoggerClass option"
  level :: "ClickHouseLogLevel option"

record ('sv, 'st, 'vl, 'ir, 'rs) ClickHouseClientConfigOptions =
  impl :: "('sv, 'st, 'vl, 'ir, 'rs) Impl"
  host :: "jsstring option"
  request_timeout :: "nat option"
  max_open_connections :: "enat option"
  compression :: "compression_options option"
  username :: "jsstring option"
  password :: "jsstring option"
  application :: "jsstring option"
  database :: "jsstring option"
  clickhouse_settings :: "'sv ClickHouseSettings option"
  log :: "log_options option"
  session_id :: "jsstring option"

record ('sv, 'st, 'vl, 'ir, 'rs) ClickHouseClient =
  connectionParams :: "'sv ConnectionParams"
  connection :: "('sv, 'st, 'vl, 'ir) Connection"
  makeResultSet :: "'st \<Rightarrow> jsstring \<Rightarrow> jsstring \<Rightarrow> 'rs"
  valuesEncoder :: "('sv, 'st, 'vl) ValuesEncoder"
  closeStream :: "'st \<Rightarrow> ('sv, 'st, 'vl) history \<Rightarrow> error + unit"
  sessionId :: "jsstring option"


section \<open>Configuration resolution\<close>

text \<open>
  Code that runs while a client is constructed and is outside the sources: the
  constructor \<open>new URL(host)\<close> (\<open>None\<close> where it throws), the constructor of the
  configured logger class or of the default logger, and the constructor of the log
  writer. The last two are calls like those on any other collaborator: they are
  recorded as events and they may throw.
\<close>

record ('sv, 'st, 'vl) Platform =
  new_URL :: "jsstring \<Rightarrow> URL option"
  new_Logger :: "Logger \<Rightarrow> ('sv, 'st, 'vl) history \<Rightarrow> error + unit"
  new_LogWriter :: "LogWriter \<Rightarrow> ('sv, 'st, 'vl) history \<Rightarrow> error + unit"

definition createUrl :: "(jsstring \<Rightarrow> URL option) \<Rightarrow> jsstring \<Rightarrow> error + URL" where
  \<open>createUrl parse host' =
     (case parse host' of
        Some u \<Rightarrow> Inr u
      | None \<Rightarrow> Inl (Error (lit ''Configuration parameter "host" contains malformed url.'')))\<close>

definition validateConnectionParams :: "'sv ConnectionParams \<Rightarrow> error + unit" where
  "validateConnectionParams params =
     (let url' = ConnectionParams.url params
      in if protocol url' \<noteq> lit ''http:'' \<and> protocol url' \<noteq> lit ''https:''
         then Inl (Error (lit ''Only http(s) protocol is supported, but given: ['' @
                          protocol url' @ lit '']''))
         else Inr ())"

text \<open>
  The properties of the object literal in \<open>getConnectionParams\<close> are evaluated in
  the order written: \<open>createUrl\<close> comes before the logger is instantiated, and the
  logger before the log writer that receives it.
\<close>

definition getConnectionParams ::
  "('sv, 'st, 'vl) Platform \<Rightarrow> ('sv, 'st, 'vl, 'ir, 'rs) ClickHouseClientConfigOptions
     \<Rightarrow> ('sv, 'st, 'vl) history \<Rightarrow> (error + 'sv ConnectionParams) \<times> ('sv, 'st, 'vl) history" where
  "getConnectionParams platform config tr =
     (case createUrl (new_URL platform) (nullish (host config) (lit ''http://localhost:8123'')) of
        Inl e \<Rightarrow> (Inl e, tr)
      | Inr u \<Rightarrow>
          (let logger = (case (case log config of None \<Rightarrow> None | Some l \<Rightarrow> LoggerClass l) of
                           Some c \<Rightarrow> FromClass c
                         | None \<Rightarrow> DefaultLogger);
               tr1 = tr @ [NewLogger logger]
           in case new_Logger platform logger tr of
                Inl e \<Rightarrow> (Inl e, tr1)
              | Inr _ \<Rightarrow>
                  (let writer = LogWriter logger
                                  (case log config of None \<Rightarrow> None | Some l \<Rightarrow> level l);
                       tr2 = tr1 @ [NewLogWriter writer]
                   in case new_LogWriter platform writer tr1 of
                        Inl e \<Rightarrow> (Inl e, tr2)
                      | Inr _ \<Rightarrow>
                          (Inr \<lparr>
                             ConnectionParams.application_id = application config,
                             ConnectionParams.url = u,
                             ConnectionParams.request_timeout =
                               nullish (ClickHouseClientConfigOptions.request_timeout config) 300000,
                             ConnectionParams.max_open_connections =
                               nullish (ClickHouseClientConfigOptions.max_open_connections config)
                                 \<infinity>,
                             ConnectionParams.compression = \<lparr>
                               decompress_response =
                                 nullish (case ClickHouseClientConfigOptions.compression config of
                                            None \<Rightarrow> None | Some c \<Rightarrow> response c) True,
                               compress_request =
                                 nullish (case ClickHouseClientConfigOptions.compression config of
                                            None \<Rightarrow> None | Some c \<Rightarrow> request c) False \<rparr>,
                             ConnectionParams.username =
                               nullish (ClickHouseClientConfigOptions.username config) (lit ''default''),
                             ConnectionParams.password =
                               nullish (ClickHouseClientConfigOptions.password config) (lit []),
                             ConnectionParams.database =
                               nullish (ClickHouseClientConfigOptions.database config) (lit ''default''),
                             ConnectionParams.clickhouse_settings =
                               nullish (ClickHouseClientConfigOptions.clickhouse_settings config)
                                 Map.empty,
                             ConnectionParams.logWriter = writer \<rparr>,
                           tr2))))"


section \<open>The client\<close>

text \<open>
  The constructor. It returns the client or the error it throws, and the events so
  far extended by what it did.
\<close>

definition new_ClickHouseClient ::
  "('sv, 'st, 'vl) Platform \<Rightarrow> ('sv, 'st, 'vl, 'ir, 'rs) ClickHouseClientConfigOptions
     \<Rightarrow> ('sv, 'st, 'vl) history
     \<Rightarrow> (error + ('sv, 'st, 'vl, 'ir, 'rs) ClickHouseClient) \<times> ('sv, 'st, 'vl) history" where
  "new_ClickHouseClient platform config tr =
     (case getConnectionParams platform config tr of
        (Inl e, tr1) \<Rightarrow> (Inl e, tr1)
      | (Inr params, tr1) \<Rightarrow>
          (case validateConnectionParams params of
             Inl e \<Rightarrow> (Inl e, tr1)
           | Inr _ \<Rightarrow>
               (Inr \<lparr> connectionParams = params,
                      connection = make_connection (impl config) params,
                      makeResultSet = make_result_set (impl config),
                      valuesEncoder = values_encoder (impl config),
                      closeStream = close_stream (impl config),
                      sessionId = ClickHouseClientConfigOptions.session_id config \<rparr>,
                tr1 @ [MakeConnection params])))"

definition getQueryParams ::
  "('sv, 'st, 'vl, 'ir, 'rs) ClickHouseClient \<Rightarrow> ('sv, 'm) BaseQueryParams_scheme
     \<Rightarrow> 'sv ResolvedQueryParams" where
  "getQueryParams this params =
     \<lparr> ResolvedQueryParams.clickhouse_settings =
         ConnectionParams.clickhouse_settings (connectionParams this) ++
         spread (BaseQueryParams.clickhouse_settings params),
       ResolvedQueryParams.query_params = BaseQueryParams.query_params params,
       ResolvedQueryParams.abort_signal = BaseQueryParams.abort_signal params,
       ResolvedQueryParams.query_id = BaseQueryParams.query_id params,
       ResolvedQueryParams.session_id = sessionId this \<rparr>"

text \<open>The object literals \<open>{ query, ...r }\<close> and \<open>{ query, values, ...r }\<close>.\<close>

definition query_request :: "jsstring \<Rightarrow> 'sv ResolvedQueryParams \<Rightarrow> 'sv ConnBaseQueryParams" where
  "query_request q r =
     \<lparr> ConnBaseQueryParams.query = q,
       ConnBaseQueryParams.clickhouse_settings = ResolvedQueryParams.clickhouse_settings r,
       ConnBaseQueryParams.query_params = ResolvedQueryParams.query_params r,
       ConnBaseQueryParams.abort_signal = ResolvedQueryParams.abort_signal r,
       ConnBaseQueryParams.query_id = ResolvedQueryParams.query_id r,
       ConnBaseQueryParams.session_id = ResolvedQueryParams.session_id r \<rparr>"

definition insert_request ::
  "jsstring \<Rightarrow> 'st payload \<Rightarrow> 'sv ResolvedQueryParams \<Rightarrow> ('sv, 'st) ConnInsertParams" where
  "insert_request q v r =
     \<lparr> ConnInsertParams.query = q,
       ConnInsertParams.values' = v,
       ConnInsertParams.clickhouse_settings = ResolvedQueryParams.clickhouse_settings r,
       ConnInsertParams.query_params = ResolvedQueryParams.query_params r,
       ConnInsertParams.abort_signal = ResolvedQueryParams.abort_signal r,
       ConnInsertParams.query_id = ResolvedQueryParams.query_id r,
       ConnInsertParams.session_id = ResolvedQueryParams.session_id r \<rparr>"

definition client_query ::
  "('sv, 'st, 'vl, 'ir, 'rs) ClickHouseClient \<Rightarrow> 'sv QueryParams \<Rightarrow> ('sv, 'st, 'vl) history
     \<Rightarrow> (error + 'rs) \<times> ('sv, 'st, 'vl) history" where
  "client_query this params tr =
     (let format' = nullish (QueryParams.format params) (lit ''JSON'');
          query' = formatQuery (QueryParams.query params) format';
          req = query_request query' (getQueryParams this params)
      in case conn_query (connection this) req tr of
           Inl e \<Rightarrow> (Inl e, tr @ [ConnQuery req])
         | Inr r \<Rightarrow>
             (Inr (makeResultSet this (stream r) format' (ConnQueryResult.query_id r)),
              tr @ [ConnQuery req]))"

definition client_exec ::
  "('sv, 'st, 'vl, 'ir, 'rs) ClickHouseClient \<Rightarrow> 'sv ExecParams \<Rightarrow> ('sv, 'st, 'vl) history
     \<Rightarrow> (error + 'st ConnQueryResult) \<times> ('sv, 'st, 'vl) history" where
  "client_exec this params tr =
     (let query' = removeTrailingSemi (trim (ExecParams.query params));
          req = query_request query' (getQueryParams this params)
      in (conn_exec (connection this) req tr, tr @ [ConnExec req]))"

definition client_command ::
  "('sv, 'st, 'vl, 'ir, 'rs) ClickHouseClient \<Rightarrow> 'sv ExecParams \<Rightarrow> ('sv, 'st, 'vl) history
     \<Rightarrow> (error + CommandResult) \<times> ('sv, 'st, 'vl) history" where
  "client_command this params tr =
     (case client_exec this params tr of
        (Inl e, tr1) \<Rightarrow> (Inl e, tr1)
      | (Inr r, tr1) \<Rightarrow>
          (case closeStream this (stream r) tr1 of
             Inl e \<Rightarrow> (Inl e, tr1 @ [CloseStream (stream r)])
           | Inr _ \<Rightarrow>
               (Inr \<lparr> CommandResult.query_id = ConnQueryResult.query_id r \<rparr>,
                tr1 @ [CloseStream (stream r)])))"

text \<open>The template literal \<open>`INSERT INTO ${params.table.trim()} FORMAT ${format}`\<close>.\<close>

definition insert_statement :: "jsstring \<Rightarrow> jsstring \<Rightarrow> jsstring" where
  "insert_statement table' format' =
     lit ''INSERT INTO '' @ trim table' @ lit '' FORMAT '' @ format'"

definition client_insert ::
  "('sv, 'st, 'vl, 'ir, 'rs) ClickHouseClient \<Rightarrow> ('sv, 'vl) InsertParams
     \<Rightarrow> ('sv, 'st, 'vl) history \<Rightarrow> (error + 'ir) \<times> ('sv, 'st, 'vl) history" where
  "client_insert this params tr =
     (let format' = falsy_or (InsertParams.format params) (lit ''JSONCompactEachRow'');
          tr1 = tr @ [ValidateInsertValues (InsertParams.values' params) format']
      in case validateInsertValues (valuesEncoder this) (InsertParams.values' params) format' tr of
           Inl e \<Rightarrow> (Inl e, tr1)
         | Inr _ \<Rightarrow>
             (let query' = insert_statement (table params) format';
                  tr2 = tr1 @ [EncodeValues (InsertParams.values' params) format']
              in case encodeValues (valuesEncoder this) (InsertParams.values' params) format' tr1 of
                   Inl e \<Rightarrow> (Inl e, tr2)
                 | Inr v \<Rightarrow>
                     (let req = insert_request query' v (getQueryParams this params)
                      in (conn_insert (connection this) req tr2, tr2 @ [ConnInsert req]))))"

definition client_ping ::
  "('sv, 'st, 'vl, 'ir, 'rs) ClickHouseClient \<Rightarrow> ('sv, 'st, 'vl) history
     \<Rightarrow> (error + PingResult) \<times> ('sv, 'st, 'vl) history" where
  "client_ping this tr = (conn_ping (connection this) tr, tr @ [ConnPing])"

definition client_close ::
  "('sv, 'st, 'vl, 'ir, 'rs) ClickHouseClient \<Rightarrow> ('sv, 'st, 'vl) history
     \<Rightarrow> (error + unit) \<times> ('sv, 'st, 'vl) history" where
  "client_close this tr = (conn_close (connection this) tr, tr @ [ConnClose])"

text \<open>
  Modelled from the spec: the connection's own ping, whose implementation is outside
  the sources. The spec says that it never raises on failure and reports success or
  failure inside the result value. \<open>transport\<close> is the outcome of the underlying
  request.
\<close>

definition connection_ping_spec ::
  "(('sv, 'st, 'vl) history \<Rightarrow> error + unit) \<Rightarrow> ('sv, 'st, 'vl) history \<Rightarrow> error + PingResult" where
  "connection_ping_spec transport tr =
     (case transport tr of
        Inr _ \<Rightarrow> Inr \<lparr> success = True, error = None \<rparr>
      | Inl e \<Rightarrow> Inr \<lparr> success = False, error = Some e \<rparr>)"


section \<open>The settings overlay, in the specification's words\<close>

text \<open>
  The effective settings are the connection defaults overlaid with the call-level
  settings: on a key the call sets, the call's value; on every other key, the default
  (present exactly when the default is).
\<close>

definition overlays_spec ::
  "('k \<rightharpoonup> 'v) \<Rightarrow> ('k \<rightharpoonup> 'v) \<Rightarrow> ('k \<rightharpoonup> 'v) \<Rightarrow> bool" where
  "overlays_spec defaults call eff \<longleftrightarrow>
     (\<forall>k. (k \<in> dom call \<longrightarrow> eff k = call k) \<and> (k \<notin> dom call \<longrightarrow> eff k = defaults k))"


section \<open>Observing the calls\<close>

text \<open>
  The events an operation added to the events before it, and the query text, the
  settings and the session identifier of a request sent to the connection.
\<close>

definition new_events :: "'e list \<Rightarrow> 'a \<times> 'e list \<Rightarrow> 'e list" where
  "new_events tr res = drop (length tr) (snd res)"

fun sent_query :: "('sv, 'st, 'vl) event \<Rightarrow> jsstring option" where
  "sent_query (ConnQuery r) = Some (ConnBaseQueryParams.query r)"
| "sent_query (ConnExec r) = Some (ConnBaseQueryParams.query r)"
| "sent_query (ConnInsert r) = Some (ConnInsertParams.query r)"
| "sent_query _ = None"

fun sent_settings :: "('sv, 'st, 'vl) event \<Rightarrow> 'sv ClickHouseSettings option" where
  "sent_settings (ConnQuery r) = Some (ConnBaseQueryParams.clickhouse_settings r)"
| "sent_settings (ConnExec r) = Some (ConnBaseQueryParams.clickhouse_settings r)"
| "sent_settings (ConnInsert r) = Some (ConnInsertParams.clickhouse_settings r)"
| "sent_settings _ = None"

fun sent_session_id :: "('sv, 'st, 'vl) event \<Rightarrow> jsstring option option" where
  "sent_session_id (ConnQuery r) = Some (ConnBaseQueryParams.session_id r)"
| "sent_session_id (ConnExec r) = Some (ConnBaseQueryParams.session_id r)"
| "sent_session_id (ConnInsert r) = Some (ConnInsertParams.session_id r)"
| "sent_session_id _ = None"

fun is_request :: "('sv, 'st, 'vl) event \<Rightarrow> bool" where
  "is_request (ConnQuery r) = True"
| "is_request (ConnExec r) = True"
| "is_request (ConnInsert r) = True"
| "is_request _ = False"

text \<open>The making of a connection, and every call on one.\<close>

fun is_connection_call :: "('sv, 'st, 'vl) event \<Rightarrow> bool" where
  "is_connection_call (MakeConnection params) = True"
| "is_connection_call (ConnQuery r) = True"
| "is_connection_call (ConnExec r) = True"
| "is_connection_call (ConnInsert r) = True"
| "is_connection_call ConnPing = True"
| "is_connection_call ConnClose = True"
| "is_connection_call _ = False"


section \<open>A sample client\<close>

text \<open>
  Concrete collaborators on which the operations can be run: streams are numbered,
  insert values are lists of numbers, a result set is the triple it was made from.
  The sample validation rejects rows that contain \<open>0\<close>.
\<close>

definition sample_connection :: "(nat, nat, nat list, jsstring) Connection" where
  "sample_connection =
     \<lparr> conn_query = (\<lambda>req tr. Inr \<lparr> stream = 1, ConnQueryResult.query_id = lit ''q1'' \<rparr>),
       conn_exec = (\<lambda>req tr. Inr \<lparr> stream = 2, ConnQueryResult.query_id = lit ''q2'' \<rparr>),
       conn_insert = (\<lambda>req tr. Inr (lit ''q3'')),
       conn_ping = (\<lambda>tr. Inr \<lparr> success = True, error = None \<rparr>),
       conn_close = (\<lambda>tr. Inr ()) \<rparr>"

definition sample_impl :: "(nat, nat, nat list, jsstring, nat \<times> jsstring \<times> jsstring) Impl" where
  "sample_impl =
     \<lparr> make_connection = (\<lambda>params. sample_connection),
       make_result_set = (\<lambda>s f q. (s, f, q)),
       values_encoder =
         \<lparr> validateInsertValues =
             (\<lambda>v f tr. if 0 \<in> set v then Inl (Error (lit ''bad row'')) else Inr ()),
           encodeValues = (\<lambda>v f tr. Inr (PayloadString (lit ''rows''))) \<rparr>,
       close_stream = (\<lambda>s tr. Inr ()) \<rparr>"

text \<open>
  The sample platform parses two URLs, and the constructor of its logger class
  \<open>Broken\<close> throws.
\<close>

definition sample_new_URL :: "jsstring \<Rightarrow> URL option" where
  "sample_new_URL h =
     (if h = lit ''http://localhost:8123'' then Some \<lparr> href = h, protocol = lit ''http:'' \<rparr>
      else if h = lit ''ftp://db'' then Some \<lparr> href = h, protocol = lit ''ftp:'' \<rparr>
      else None)"

definition sample_platform :: "(nat, nat, nat list) Platform" where
  "sample_platform =
     \<lparr> new_URL = sample_new_URL,
       new_Logger =
         (\<lambda>logger tr. if logger = FromClass (NamedClass (lit ''Broken''))
                       then Inl (Error (lit ''logger failed'')) else Inr ()),
       new_LogWriter = (\<lambda>writer tr. Inr ()) \<rparr>"

definition sample_config ::
  "(nat, nat, nat list, jsstring, nat \<times> jsstring \<times> jsstring) ClickHouseClientConfigOptions" where
  "sample_config =
     \<lparr> impl = sample_impl,
       host = None,
       ClickHouseClientConfigOptions.request_timeout = None,
       ClickHouseClientConfigOptions.max_open_connections = None,
       ClickHouseClientConfigOptions.compression = None,
       ClickHouseClientConfigOptions.username = None,
       ClickHouseClientConfigOptions.password = None,
       application = None,
       ClickHouseClientConfigOptions.database = None,
       ClickHouseClientConfigOptions.clickhouse_settings =
         Some [lit ''max_threads'' \<mapsto> 4, lit ''readonly'' \<mapsto> 1],
       log = None,
       ClickHouseClientConfigOptions.session_id = None \<rparr>"

definition sample_params :: "nat ConnectionParams" where
  "sample_params =
     \<lparr> application_id = None,
       url = \<lparr> href = lit ''http://localhost:8123'', protocol = lit ''http:'' \<rparr>,
       request_timeout = 300000,
       max_open_connections = \<infinity>,
       compression = \<lparr> decompress_response = True, compress_request = False \<rparr>,
       username = lit ''default'',
       password = [],
       database = lit ''default'',
       clickhouse_settings = [lit ''max_threads'' \<mapsto> 4, lit ''readonly'' \<mapsto> 1],
       logWriter = LogWriter DefaultLogger None \<rparr>"

definition sample_client ::
  "(nat, nat, nat list, jsstring, nat \<times> jsstring \<times> jsstring) ClickHouseClient" where
  "sample_client =
     \<lparr> connectionParams = sample_params,
       connection = sample_connection,
       makeResultSet = (\<lambda>s f q. (s, f, q)),
       valuesEncoder = values_encoder sample_impl,
       closeStream = (\<lambda>s tr. Inr ()),
       sessionId = None \<rparr>"

text \<open>Per-call parameters with every optional field absent.\<close>

definition exec_params :: "jsstring \<Rightarrow> nat ExecParams" where
  "exec_params q =
     \<lparr> BaseQueryParams.clickhouse_settings = None,
       BaseQueryParams.query_params = None,
       BaseQueryParams.abort_signal = None,
       BaseQueryParams.query_id = None,
       BaseQueryParams.session_id = None,
       ExecParams.query = q \<rparr>"

definition query_params_of :: "jsstring \<Rightarrow> jsstring option \<Rightarrow> nat QueryParams" where
  "query_params_of q f =
     \<lparr> BaseQueryParams.clickhouse_settings = None,
       BaseQueryParams.query_params = None,
       BaseQueryParams.abort_signal = None,
       BaseQueryParams.query_id = None,
       BaseQueryParams.session_id = None,
       QueryParams.query = q,
       QueryParams.format = f \<rparr>"

definition insert_params :: "jsstring \<Rightarrow> nat list \<Rightarrow> jsstring option \<Rightarrow> (nat, nat list) InsertParams" where
  "insert_params t v f =
     \<lparr> BaseQueryParams.clickhouse_settings = None,
       BaseQueryParams.query_params = None,
       BaseQueryParams.abort_signal = None,
       BaseQueryParams.query_id = None,
       BaseQueryParams.session_id = None,
       table = t,
       InsertParams.values' = v,
       InsertParams.format = f \<rparr>"


section \<open>Theorems on the query text\<close>

lemma removeTrailingSemi_loop_take:
  "i \<le> length q \<Longrightarrow>
   removeTrailingSemi_loop q d i =
     (if set (take i q) \<subseteq> {semi} then d
      else length (dropWhile (\<lambda>c. c = semi) (rev (take i q))))"
proof (induction i)
  case 0
  then show ?case by simp
next
  case (Suc j)
  then have j: "j < length q" by simp
  have snoc: "take (Suc j) q = take j q @ [q ! j]"
    using j by (simp add: take_Suc_conv_app_nth)
  show ?case
  proof (cases "q ! j = semi")
    case True
    with Suc j show ?thesis by (simp add: snoc)
  next
    case False
    with j show ?thesis by (simp add: snoc)
  qed
qed

lemma strip_spec_take:
  "strip_trailing_terminators_spec s = take (length (dropWhile (\<lambda>c. c = semi) (rev s))) s"
proof -
  let ?P = "\<lambda>c. c = semi"
  let ?n = "length (takeWhile ?P (rev s))"
  have d: "dropWhile ?P (rev s) = drop ?n (rev s)"
    by (rule dropWhile_eq_drop)
  have "rev (drop ?n (rev s)) = take (length s - ?n) s"
    by (simp add: rev_drop)
  then show ?thesis
    unfolding strip_trailing_terminators_spec_def d by simp
qed

text \<open>
  What the code does on every text: a text made of terminators only (the empty text
  included) comes back unchanged, every other text loses exactly its trailing run.
\<close>

lemma removeTrailingSemi_only_semis:
  "set q \<subseteq> {semi} \<Longrightarrow> removeTrailingSemi q = q"
  by (simp add: removeTrailingSemi_def removeTrailingSemi_loop_take)

lemma removeTrailingSemi_strips:
  assumes ns: "\<not> set q \<subseteq> {semi}"
  shows "removeTrailingSemi q = strip_trailing_terminators_spec q"
proof -
  let ?l = "length (dropWhile (\<lambda>c. c = semi) (rev q))"
  have "removeTrailingSemi_loop q (length q) (length q) = ?l"
    using ns by (simp add: removeTrailingSemi_loop_take)
  then have "removeTrailingSemi q = (if ?l \<noteq> length q then take ?l q else q)"
    by (simp add: removeTrailingSemi_def)
  also have "\<dots> = take ?l q"
    by simp
  finally show ?thesis
    by (simp add: strip_spec_take)
qed

text \<open>
  C1. The stripping function is claimed to remove the maximal run of \<open>;\<close> at the end
  of every text, so that no result ends in \<open>;\<close>. On the text \<open>;;;\<close> (already
  trimmed, ending in three terminators) the loop never meets another code unit,
  \<open>lastNonSemiIdx\<close> keeps its initial value \<open>query.length\<close>, and the text is
  returned whole: the result still ends in \<open>;\<close>, where the specification's stripping
  gives the empty text.
\<close>

theorem removeTrailingSemi_keeps_terminator_only_text:
  "removeTrailingSemi (lit '';;;'') = lit '';;;''
   \<and> last (removeTrailingSemi (lit '';;;'')) = semi
   \<and> strip_trailing_terminators_spec (lit '';;;'') = []"
  by (simp add: removeTrailingSemi_def strip_trailing_terminators_spec_def lit_def semi_def)


section \<open>Theorems on trimming\<close>

lemma trim_whitespace_around:
  assumes w1: "\<forall>c\<in>set ws1. js_whitespace c" and w2: "\<forall>c\<in>set ws2. js_whitespace c"
  shows "trim (ws1 @ t @ ws2) = trim t"
proof (cases "\<forall>c\<in>set t. js_whitespace c")
  case True
  have a: "dropWhile js_whitespace (ws1 @ t @ ws2) = []"
    using w1 w2 True by (auto simp add: dropWhile_eq_Nil_conv)
  have b: "dropWhile js_whitespace t = []"
    using True by (simp add: dropWhile_eq_Nil_conv)
  show ?thesis unfolding trim_def a b by simp
next
  case False
  then obtain x where x: "x \<in> set t" "\<not> js_whitespace x" by blast
  have front: "dropWhile js_whitespace (ws1 @ t @ ws2) = dropWhile js_whitespace t @ ws2"
    using w1 x by simp
  have rear: "dropWhile js_whitespace (rev ws2 @ rev (dropWhile js_whitespace t))
      = dropWhile js_whitespace (rev (dropWhile js_whitespace t))"
    by (rule dropWhile_append2) (use w2 in auto)
  show ?thesis
    by (simp add: trim_def front rear)
qed

lemma trim_clean:
  assumes "t = [] \<or> (\<not> js_whitespace (hd t) \<and> \<not> js_whitespace (last t))"
  shows "trim t = t"
proof (cases "t = []")
  case True
  then show ?thesis by (simp add: trim_def)
next
  case False
  with assms have h: "\<not> js_whitespace (hd t)" and l: "\<not> js_whitespace (last t)" by simp_all
  have d: "dropWhile js_whitespace t = t"
    using h by (simp add: dropWhile_eq_self_iff)
  have "dropWhile js_whitespace (rev t) = rev t"
    using l False by (simp add: dropWhile_eq_self_iff hd_rev)
  with d show ?thesis by (simp add: trim_def)
qed


section \<open>The requests of the operations\<close>

lemma getQueryParams_session_id:
  "ResolvedQueryParams.session_id (getQueryParams this params) = sessionId this"
  by (simp add: getQueryParams_def)

lemma client_query_events:
  "snd (client_query this p tr) =
     tr @ [ConnQuery (query_request
             (formatQuery (QueryParams.query p) (nullish (QueryParams.format p) (lit ''JSON'')))
             (getQueryParams this p))]"
  by (simp add: client_query_def Let_def split: sum.splits)

lemma client_exec_events:
  "snd (client_exec this p tr) =
     tr @ [ConnExec (query_request (removeTrailingSemi (trim (ExecParams.query p)))
             (getQueryParams this p))]"
  by (simp add: client_exec_def Let_def)

text \<open>
  C2. A call whose parameter record supplies a session identifier is claimed to reach
  the connection with that identifier. \<open>BaseQueryParams\<close> declares the per-call
  \<open>session_id\<close>, but \<open>getQueryParams\<close> fills the request's \<open>session_id\<close> from
  \<open>this.sessionId\<close> alone (lemma \<open>getQueryParams_session_id\<close>), while it forwards the
  neighbouring \<open>query_id\<close> from the call. On a client configured without a session,
  \<open>exec\<close>, \<open>query\<close> and \<open>insert\<close> called with \<open>session_id: 's1'\<close> each send a
  request whose session identifier is absent.
\<close>

theorem per_call_session_id_not_forwarded:
  "map sent_session_id (new_events [] (client_exec sample_client
      ((exec_params (lit ''SELECT 1'')) \<lparr> BaseQueryParams.session_id := Some (lit ''s1'') \<rparr>) []))
     = [Some None]
   \<and> map sent_session_id (new_events [] (client_query sample_client
      ((query_params_of (lit ''SELECT 1'') None) \<lparr> BaseQueryParams.session_id := Some (lit ''s1'') \<rparr>) []))
     = [Some None]
   \<and> map sent_session_id (new_events [] (client_insert sample_client
      ((insert_params (lit ''t'') [1, 2] None) \<lparr> BaseQueryParams.session_id := Some (lit ''s1'') \<rparr>) []))
     = [None, None, Some None]"
  by (simp add: new_events_def client_exec_events client_query_events query_request_def
      getQueryParams_session_id sample_client_def client_insert_def Let_def sample_impl_def
      insert_params_def insert_request_def sample_connection_def)

lemma client_query_outcome:
  assumes "\<not> set (trim (QueryParams.query p)) \<subseteq> {semi}"
  shows "\<exists>req. snd (client_query this p tr) = tr @ [ConnQuery req]
    \<and> ConnBaseQueryParams.query req =
        strip_trailing_terminators_spec (trim (QueryParams.query p)) @
        lit '' \<newline>FORMAT '' @ nullish (QueryParams.format p) (lit ''JSON'')
    \<and> fst (client_query this p tr) =
        (case conn_query (connection this) req tr of
           Inl e \<Rightarrow> Inl e
         | Inr r \<Rightarrow> Inr (makeResultSet this (stream r)
                     (nullish (QueryParams.format p) (lit ''JSON'')) (ConnQueryResult.query_id r)))"
  using removeTrailingSemi_strips [OF assms]
  by (simp add: client_query_def Let_def formatQuery_def query_request_def split: sum.splits)

lemma client_exec_outcome:
  assumes "\<not> set (trim (ExecParams.query p)) \<subseteq> {semi}"
  shows "\<exists>req. client_exec this p tr = (conn_exec (connection this) req tr, tr @ [ConnExec req])
    \<and> ConnBaseQueryParams.query req = strip_trailing_terminators_spec (trim (ExecParams.query p))"
  using removeTrailingSemi_strips [OF assms]
  by (simp add: client_exec_def Let_def query_request_def)

text \<open>
  C3. The text sent by \<open>query\<close> is claimed to be the caller's text, trimmed, with its
  trailing \<open>;\<close> stripped, followed by the FORMAT clause. For the query text \<open>;\<close>
  the connection receives \<open>; \nFORMAT JSON\<close>, the terminator still in place, where
  the stripped text followed by the clause is \<open> \nFORMAT JSON\<close>. This is the defect
  of \<open>removeTrailingSemi\<close> shown for C1; lemma \<open>client_query_outcome\<close> gives the
  claimed text, format and result set for every query text with a code unit other than
  \<open>;\<close> left after trimming.
\<close>

theorem query_keeps_terminator_only_text:
  "map sent_query (new_events [] (client_query sample_client (query_params_of (lit '';'') None) []))
     = [Some (lit ''; \<newline>FORMAT JSON'')]
   \<and> strip_trailing_terminators_spec (trim (lit '';'')) @ lit '' \<newline>FORMAT '' @ lit ''JSON''
     = lit '' \<newline>FORMAT JSON''"
  by (simp add: new_events_def client_query_events query_request_def query_params_of_def
      formatQuery_def nullish_def trim_def js_whitespace_def removeTrailingSemi_def
      strip_trailing_terminators_spec_def lit_def semi_def)

text \<open>
  C8. The text sent by \<open>exec\<close> is claimed to be the caller's text, trimmed, with its
  trailing \<open>;\<close> stripped and no FORMAT clause. For the query text \<open>;\<close> the
  connection receives \<open>;\<close>, where the stripped text is empty: again the defect of
  \<open>removeTrailingSemi\<close> shown for C1. Lemma \<open>client_exec_outcome\<close> gives the claimed
  text for every other query text, and shows that \<open>exec\<close> returns what the
  connection returned and makes no other call.
\<close>

theorem exec_keeps_terminator_only_text:
  "map sent_query (new_events [] (client_exec sample_client (exec_params (lit '';'')) []))
     = [Some (lit '';'')]
   \<and> strip_trailing_terminators_spec (trim (lit '';'')) = []"
  by (simp add: new_events_def client_exec_events query_request_def exec_params_def
      trim_def js_whitespace_def removeTrailingSemi_def
      strip_trailing_terminators_spec_def lit_def semi_def)


section \<open>Settings, command, construction, insert and ping\<close>

lemma client_insert_cases:
  "client_insert this p tr =
     (let fmt = falsy_or (InsertParams.format p) (lit ''JSONCompactEachRow'');
          vals = InsertParams.values' p;
          tr1 = tr @ [ValidateInsertValues vals fmt];
          tr2 = tr1 @ [EncodeValues vals fmt]
      in case validateInsertValues (valuesEncoder this) vals fmt tr of
           Inl e \<Rightarrow> (Inl e, tr1)
         | Inr u \<Rightarrow>
             (case encodeValues (valuesEncoder this) vals fmt tr1 of
                Inl e \<Rightarrow> (Inl e, tr2)
              | Inr v \<Rightarrow>
                  (conn_insert (connection this)
                     (insert_request (insert_statement (table p) fmt) v (getQueryParams this p)) tr2,
                   tr2 @ [ConnInsert
                     (insert_request (insert_statement (table p) fmt) v (getQueryParams this p))])))"
  by (simp add: client_insert_def Let_def split: sum.splits)

lemma getQueryParams_overlay:
  "overlays_spec (ConnectionParams.clickhouse_settings (connectionParams this))
     (spread (BaseQueryParams.clickhouse_settings p))
     (ResolvedQueryParams.clickhouse_settings (getQueryParams this p))"
  by (auto simp add: overlays_spec_def getQueryParams_def map_add_def split: option.splits)

lemma client_command_events:
  "snd (client_command this p tr) =
     snd (client_exec this p tr) @
     (case fst (client_exec this p tr) of Inl e \<Rightarrow> [] | Inr r \<Rightarrow> [CloseStream (stream r)])"
  by (simp add: client_command_def split: prod.splits sum.splits)

lemma query_sent_settings:
  "map sent_settings (filter is_request (new_events tr (client_query this p tr))) =
     [Some (ResolvedQueryParams.clickhouse_settings (getQueryParams this p))]"
  by (simp add: new_events_def client_query_events query_request_def)

lemma exec_sent_settings:
  "map sent_settings (filter is_request (new_events tr (client_exec this p tr))) =
     [Some (ResolvedQueryParams.clickhouse_settings (getQueryParams this p))]"
  by (simp add: new_events_def client_exec_events query_request_def)

lemma command_sent_settings:
  "map sent_settings (filter is_request (new_events tr (client_command this p tr))) =
     [Some (ResolvedQueryParams.clickhouse_settings (getQueryParams this p))]"
  by (simp add: new_events_def client_command_events client_exec_events query_request_def
      split: sum.splits)

lemma insert_sent_settings:
  "set (map sent_settings (filter is_request (new_events tr (client_insert this p tr))))
     \<subseteq> {Some (ResolvedQueryParams.clickhouse_settings (getQueryParams this p))}"
  by (auto simp add: new_events_def client_insert_cases Let_def insert_request_def
      split: sum.splits)

text \<open>
  C4. The settings object built by \<open>getQueryParams\<close> is the connection's default
  settings overlaid with the call's: on every key the call sets the call's value wins,
  and on every other key the default is kept, present exactly when the connection has
  it. Every request that \<open>query\<close>, \<open>exec\<close>, \<open>command\<close> and \<open>insert\<close> send to
  the connection carries exactly these settings.
\<close>

theorem effective_settings_overlay:
  "overlays_spec (ConnectionParams.clickhouse_settings (connectionParams this))
     (spread (BaseQueryParams.clickhouse_settings p))
     (ResolvedQueryParams.clickhouse_settings (getQueryParams this p))
   \<and> map sent_settings (filter is_request (new_events tr (client_query this qp tr))) =
       [Some (ResolvedQueryParams.clickhouse_settings (getQueryParams this qp))]
   \<and> map sent_settings (filter is_request (new_events tr (client_exec this ep tr))) =
       [Some (ResolvedQueryParams.clickhouse_settings (getQueryParams this ep))]
   \<and> map sent_settings (filter is_request (new_events tr (client_command this ep tr))) =
       [Some (ResolvedQueryParams.clickhouse_settings (getQueryParams this ep))]
   \<and> set (map sent_settings (filter is_request (new_events tr (client_insert this ip tr))))
       \<subseteq> {Some (ResolvedQueryParams.clickhouse_settings (getQueryParams this ip))}"
  using getQueryParams_overlay query_sent_settings exec_sent_settings command_sent_settings
    insert_sent_settings by blast

text \<open>
  On the sample client, whose defaults are \<open>max_threads = 4\<close> and \<open>readonly = 1\<close>, a
  call with \<open>max_threads = 8\<close> runs with \<open>max_threads = 8\<close> and \<open>readonly = 1\<close>.
\<close>

theorem effective_settings_overlay_witness:
  "ResolvedQueryParams.clickhouse_settings
     (getQueryParams sample_client
        ((exec_params (lit ''SELECT 1''))
           \<lparr> BaseQueryParams.clickhouse_settings := Some [lit ''max_threads'' \<mapsto> 8] \<rparr>))
     (lit ''max_threads'') = Some 8
   \<and> ResolvedQueryParams.clickhouse_settings
     (getQueryParams sample_client
        ((exec_params (lit ''SELECT 1''))
           \<lparr> BaseQueryParams.clickhouse_settings := Some [lit ''max_threads'' \<mapsto> 8] \<rparr>))
     (lit ''readonly'') = Some 1"
proof -
  let ?p = "(exec_params (lit ''SELECT 1''))
           \<lparr> BaseQueryParams.clickhouse_settings := Some [lit ''max_threads'' \<mapsto> 8] \<rparr>"
  let ?call = "spread (BaseQueryParams.clickhouse_settings ?p)"
  let ?defaults = "ConnectionParams.clickhouse_settings (connectionParams sample_client)"
  let ?eff = "ResolvedQueryParams.clickhouse_settings (getQueryParams sample_client ?p)"
  have "overlays_spec ?defaults ?call ?eff"
    using effective_settings_overlay [where this = sample_client and p = ?p] by (rule conjunct1)
  then have o: "\<And>k. (k \<in> dom ?call \<longrightarrow> ?eff k = ?call k) \<and> (k \<notin> dom ?call \<longrightarrow> ?eff k = ?defaults k)"
    by (simp add: overlays_spec_def)
  have call: "?call = [lit ''max_threads'' \<mapsto> 8]"
    by (simp add: spread_def exec_params_def)
  have ne: "lit ''readonly'' \<noteq> lit ''max_threads''"
    by (simp add: lit_def)
  have "?eff (lit ''max_threads'') = Some 8"
    using o [of "lit ''max_threads''"] by (simp add: spread_def exec_params_def)
  moreover have "?eff (lit ''readonly'') = Some 1"
    using o [of "lit ''readonly''"] ne
    by (simp add: spread_def exec_params_def sample_client_def sample_params_def)
  ultimately show ?thesis by simp
qed

text \<open>
  C5. \<open>command\<close> delegates to \<open>exec\<close>: the connection receives the request of
  \<open>exec\<close> and nothing before it. When the connection fails, \<open>command\<close> fails with
  that same error and closes nothing. When the connection answers with a stream and a
  query id, the next and last call is the closing of that stream, whatever the answer
  holds; \<open>command\<close> then returns the query id alone, or raises the error of the
  closing itself if that failed.
\<close>

theorem command_closes_stream:
  "(let req = query_request (removeTrailingSemi (trim (ExecParams.query p))) (getQueryParams this p);
        tr1 = tr @ [ConnExec req]
    in client_exec this p tr = (conn_exec (connection this) req tr, tr1) \<and>
       (case conn_exec (connection this) req tr of
          Inl e \<Rightarrow> client_command this p tr = (Inl e, tr1)
        | Inr r \<Rightarrow>
            snd (client_command this p tr) = tr1 @ [CloseStream (stream r)] \<and>
            (case closeStream this (stream r) tr1 of
               Inr u \<Rightarrow> fst (client_command this p tr) =
                          Inr \<lparr> CommandResult.query_id = ConnQueryResult.query_id r \<rparr>
             | Inl e \<Rightarrow> fst (client_command this p tr) = Inl e)))"
  by (simp add: client_command_def client_exec_def Let_def split: sum.splits)

text \<open>
  On the sample client \<open>DROP TABLE t;\<close> is sent without its terminator, stream 2 is
  closed and the query id \<open>q2\<close> comes back; with a connection that refuses, the
  refusal is what the caller gets.
\<close>

theorem command_closes_stream_witness:
  "fst (client_command sample_client (exec_params (lit ''DROP TABLE t;'')) [])
     = Inr \<lparr> CommandResult.query_id = lit ''q2'' \<rparr>
   \<and> map sent_query (snd (client_command sample_client (exec_params (lit ''DROP TABLE t;'')) []))
     = [Some (lit ''DROP TABLE t''), None]
   \<and> last (snd (client_command sample_client (exec_params (lit ''DROP TABLE t;'')) []))
     = CloseStream 2
   \<and> fst (client_command
        (sample_client \<lparr> connection :=
           sample_connection \<lparr> conn_exec := (\<lambda>req tr. Inl (Error (lit ''ECONNREFUSED''))) \<rparr> \<rparr>)
        (exec_params (lit ''DROP TABLE t;'')) [])
     = Inl (Error (lit ''ECONNREFUSED''))
   \<and> map sent_query (snd (client_command
        (sample_client \<lparr> connection :=
           sample_connection \<lparr> conn_exec := (\<lambda>req tr. Inl (Error (lit ''ECONNREFUSED''))) \<rparr> \<rparr>)
        (exec_params (lit ''DROP TABLE t;'')) []))
     = [Some (lit ''DROP TABLE t'')]"
  using command_closes_stream [where this = sample_client
        and p = "exec_params (lit ''DROP TABLE t;'')" and tr = "[]"]
    command_closes_stream [where this = "sample_client \<lparr> connection :=
           sample_connection \<lparr> conn_exec := (\<lambda>req tr. Inl (Error (lit ''ECONNREFUSED''))) \<rparr> \<rparr>"
        and p = "exec_params (lit ''DROP TABLE t;'')" and tr = "[]"]
  by (simp add: Let_def sample_client_def sample_connection_def exec_params_def query_request_def
      trim_def js_whitespace_def removeTrailingSemi_def lit_def semi_def)

lemma sample_client_constructed:
  "new_ClickHouseClient sample_platform sample_config [] =
     (Inr sample_client,
      [NewLogger DefaultLogger, NewLogWriter (LogWriter DefaultLogger None),
       MakeConnection sample_params])"
  by (simp add: new_ClickHouseClient_def getConnectionParams_def createUrl_def nullish_def
      sample_platform_def sample_config_def sample_new_URL_def validateConnectionParams_def
      sample_client_def sample_params_def sample_impl_def lit_def Let_def)

text \<open>
  C6, as claimed: every configuration whose URL has a scheme other than http and https
  makes the constructor throw a configuration error. The claim fails where the
  configured logger class throws first: \<open>getConnectionParams\<close> instantiates the logger
  and the log writer before \<open>validateConnectionParams\<close> looks at the protocol. With
  the host \<open>ftp://db\<close>, which parses with the protocol \<open>ftp:\<close>, and the logger class
  \<open>Broken\<close>, the constructor throws the logger's error, which is neither of the two
  configuration errors.
\<close>

theorem construction_can_throw_the_loggers_error:
  \<open>new_URL sample_platform (lit ''ftp://db'')
     = Some \<lparr> href = lit ''ftp://db'', protocol = lit ''ftp:'' \<rparr>
   \<and> lit ''ftp:'' \<noteq> lit ''http:'' \<and> lit ''ftp:'' \<noteq> lit ''https:''
   \<and> new_ClickHouseClient sample_platform
        (sample_config \<lparr> host := Some (lit ''ftp://db''),
           log := Some \<lparr> LoggerClass = Some (NamedClass (lit ''Broken'')), level = None \<rparr> \<rparr>) []
     = (Inl (Error (lit ''logger failed'')), [NewLogger (FromClass (NamedClass (lit ''Broken'')))])
   \<and> Error (lit ''logger failed'')
       \<noteq> Error (lit ''Only http(s) protocol is supported, but given: [ftp:]'')
   \<and> Error (lit ''logger failed'')
       \<noteq> Error (lit ''Configuration parameter "host" contains malformed url.'')\<close>
  by (simp add: new_ClickHouseClient_def getConnectionParams_def createUrl_def nullish_def
      sample_platform_def sample_config_def sample_new_URL_def lit_def Let_def)

text \<open>
  C6, amended. When the host string (or, in its absence, the default
  \<open>http://localhost:8123\<close>) does not parse as a URL, the constructor throws the
  "malformed url" error and has called nothing. When it parses and its protocol is
  neither \<open>http:\<close> nor \<open>https:\<close>, the constructor throws in every case, and neither
  makes a connection nor calls one: all it has done is instantiate the logger and,
  if that went through, the log writer. The error is the "Only http(s) protocol is
  supported" error when both were instantiated, and otherwise the error that the
  logger's or the log writer's constructor threw.
\<close>

theorem construction_rejects_bad_url:
  \<open>(let h = nullish (host config) (lit ''http://localhost:8123'');
        logger = (case (case log config of None \<Rightarrow> None | Some l \<Rightarrow> LoggerClass l) of
                    Some c \<Rightarrow> FromClass c
                  | None \<Rightarrow> DefaultLogger);
        writer = LogWriter logger (case log config of None \<Rightarrow> None | Some l \<Rightarrow> level l);
        tr1 = tr @ [NewLogger logger];
        tr2 = tr1 @ [NewLogWriter writer];
        res = new_ClickHouseClient platform config tr
    in (new_URL platform h = None \<longrightarrow>
          res = (Inl (Error (lit ''Configuration parameter "host" contains malformed url.'')), tr))
     \<and> (\<forall>u. new_URL platform h = Some u
            \<and> protocol u \<noteq> lit ''http:'' \<and> protocol u \<noteq> lit ''https:'' \<longrightarrow>
          (case new_Logger platform logger tr of
             Inl e \<Rightarrow> res = (Inl e, tr1)
           | Inr a \<Rightarrow>
               (case new_LogWriter platform writer tr1 of
                  Inl e \<Rightarrow> res = (Inl e, tr2)
                | Inr b \<Rightarrow>
                    res = (Inl (Error (lit ''Only http(s) protocol is supported, but given: ['' @
                                       protocol u @ lit '']'')), tr2)))
          \<and> (\<exists>e. fst res = Inl e)
          \<and> filter is_connection_call (new_events tr res) = []))\<close>
  by (auto simp add: new_ClickHouseClient_def getConnectionParams_def createUrl_def
      validateConnectionParams_def Let_def new_events_def split: sum.splits)

text \<open>
  On the sample platform: the host \<open>localhost\<close> is not a URL, and nothing is called;
  the host \<open>ftp://db\<close> with the default logger gives the protocol error after the
  logger and the log writer were made; with the logger class \<open>Broken\<close> it is the
  logger's error that comes out, and still no connection is made.
\<close>

theorem construction_rejects_bad_url_witness:
  \<open>new_ClickHouseClient sample_platform (sample_config \<lparr> host := Some (lit ''localhost'') \<rparr>) []
     = (Inl (Error (lit ''Configuration parameter "host" contains malformed url.'')), [])
   \<and> new_ClickHouseClient sample_platform (sample_config \<lparr> host := Some (lit ''ftp://db'') \<rparr>) []
     = (Inl (Error (lit ''Only http(s) protocol is supported, but given: [ftp:]'')),
        [NewLogger DefaultLogger, NewLogWriter (LogWriter DefaultLogger None)])
   \<and> filter is_connection_call (new_events []
        (new_ClickHouseClient sample_platform
           (sample_config \<lparr> host := Some (lit ''ftp://db''),
              log := Some \<lparr> LoggerClass = Some (NamedClass (lit ''Broken'')), level = None \<rparr> \<rparr>) []))
     = []\<close>
proof -
  let ?bad = "sample_config \<lparr> host := Some (lit ''localhost'') \<rparr>"
  let ?ftp = "sample_config \<lparr> host := Some (lit ''ftp://db'') \<rparr>"
  let ?broken = "sample_config \<lparr> host := Some (lit ''ftp://db''),
      log := Some \<lparr> LoggerClass = Some (NamedClass (lit ''Broken'')), level = None \<rparr> \<rparr>"
  let ?u = "\<lparr> href = lit ''ftp://db'', protocol = lit ''ftp:'' \<rparr>"
  have a: "new_URL sample_platform (nullish (host ?bad) (lit ''http://localhost:8123'')) = None"
    by (simp add: sample_platform_def sample_new_URL_def nullish_def lit_def)
  have b: "new_URL sample_platform (nullish (host ?ftp) (lit ''http://localhost:8123'')) = Some ?u"
    "new_URL sample_platform (nullish (host ?broken) (lit ''http://localhost:8123'')) = Some ?u"
    by (simp_all add: sample_platform_def sample_new_URL_def nullish_def lit_def)
  have c: "protocol ?u \<noteq> lit ''http:'' \<and> protocol ?u \<noteq> lit ''https:''"
    by (simp add: lit_def)
  have l: "lit ''Only http(s) protocol is supported, but given: ['' @ protocol ?u @ lit '']''
      = lit ''Only http(s) protocol is supported, but given: [ftp:]''"
    by (simp add: lit_def)
  have 1: \<open>new_ClickHouseClient sample_platform ?bad []
     = (Inl (Error (lit ''Configuration parameter "host" contains malformed url.'')), [])\<close>
    using construction_rejects_bad_url [where platform = sample_platform and config = ?bad
        and tr = "[]"] a
    by (simp add: Let_def)
  have 2: "new_ClickHouseClient sample_platform ?ftp []
     = (Inl (Error (lit ''Only http(s) protocol is supported, but given: [ftp:]'')),
        [NewLogger DefaultLogger, NewLogWriter (LogWriter DefaultLogger None)])"
    using construction_rejects_bad_url [where platform = sample_platform and config = ?ftp
        and tr = "[]", unfolded Let_def, THEN conjunct2, rule_format, of ?u] b c l
    by (simp add: sample_platform_def sample_config_def)
  have 3: "filter is_connection_call (new_events []
        (new_ClickHouseClient sample_platform ?broken [])) = []"
    using construction_rejects_bad_url [where platform = sample_platform and config = ?broken
        and tr = "[]", unfolded Let_def, THEN conjunct2, rule_format, of ?u] b c
    by simp
  from 1 2 3 show ?thesis
    by blast
qed

text \<open>
  C7. \<open>insert\<close> validates the values against the effective format first. When the
  validation throws, \<open>insert\<close> throws that error and the validation is the only call
  made: nothing was encoded and no request reached the connection. When it succeeds,
  the values are encoded next (an encoding that throws again ends the call without a
  request), and the one request sent carries the encoded values and the statement
  \<open>INSERT INTO <table> FORMAT <fmt>\<close>, the table name trimmed of outer white space.
  The effective format is \<open>JSONCompactEachRow\<close> when the call gives none and the
  call's format otherwise; a format of \<open>DataFormat\<close> is a format name, never the empty
  string, the one string that \<open>||\<close> would replace by the default as well.
\<close>

theorem insert_validates_before_sending:
  "(let fmt = falsy_or (InsertParams.format p) (lit ''JSONCompactEachRow'');
        vals = InsertParams.values' p;
        tr1 = tr @ [ValidateInsertValues vals fmt];
        tr2 = tr1 @ [EncodeValues vals fmt]
    in (InsertParams.format p = None \<longrightarrow> fmt = lit ''JSONCompactEachRow'')
     \<and> (\<forall>f. InsertParams.format p = Some f \<and> f \<noteq> [] \<longrightarrow> fmt = f)
     \<and> (case validateInsertValues (valuesEncoder this) vals fmt tr of
          Inl e \<Rightarrow> client_insert this p tr = (Inl e, tr1)
        | Inr u \<Rightarrow>
            (case encodeValues (valuesEncoder this) vals fmt tr1 of
               Inl e \<Rightarrow> client_insert this p tr = (Inl e, tr2)
             | Inr v \<Rightarrow>
                 (\<exists>req. client_insert this p tr =
                          (conn_insert (connection this) req tr2, tr2 @ [ConnInsert req])
                    \<and> ConnInsertParams.values' req = v
                    \<and> ConnInsertParams.query req =
                        lit ''INSERT INTO '' @ trim (table p) @ lit '' FORMAT '' @ fmt))))"
  by (simp add: client_insert_cases Let_def falsy_or_def insert_request_def insert_statement_def
      split: sum.splits)

text \<open>
  On the sample client, whose validation rejects a row \<open>0\<close>: the rejected insert
  stops after the validation; the insert of rows 1 and 2 as \<open>JSONEachRow\<close> validates,
  encodes and sends \<open>INSERT INTO t FORMAT JSONEachRow\<close>.
\<close>

theorem insert_validates_before_sending_witness:
  "client_insert sample_client (insert_params (lit ''t'') [0] None) []
     = (Inl (Error (lit ''bad row'')), [ValidateInsertValues [0] (lit ''JSONCompactEachRow'')])
   \<and> fst (client_insert sample_client (insert_params (lit ''t'') [1, 2] (Some (lit ''JSONEachRow''))) [])
     = Inr (lit ''q3'')
   \<and> map sent_query (snd (client_insert sample_client
         (insert_params (lit ''t'') [1, 2] (Some (lit ''JSONEachRow''))) []))
     = [None, None, Some (lit ''INSERT INTO t FORMAT JSONEachRow'')]
   \<and> take 2 (snd (client_insert sample_client
         (insert_params (lit ''t'') [1, 2] (Some (lit ''JSONEachRow''))) []))
     = [ValidateInsertValues [1, 2] (lit ''JSONEachRow''), EncodeValues [1, 2] (lit ''JSONEachRow'')]"
  using insert_validates_before_sending [where p = "insert_params (lit ''t'') [0] None"
        and this = sample_client and tr = "[]"]
    insert_validates_before_sending
      [where p = "insert_params (lit ''t'') [1, 2] (Some (lit ''JSONEachRow''))"
        and this = sample_client and tr = "[]"]
  by (auto simp add: Let_def sample_client_def sample_impl_def sample_connection_def
      insert_params_def falsy_or_def trim_def js_whitespace_def lit_def)

lemma client_ping_delegates:
  "client_ping this tr = (conn_ping (connection this) tr, tr @ [ConnPing])"
  by (simp add: client_ping_def)

text \<open>
  C9. With the connection's ping as the specification describes it, the client's
  \<open>ping\<close> never raises, whatever the transport did: it returns a result whose
  \<open>success\<close> says whether the transport succeeded and whose \<open>error\<close> carries the
  transport's failure. The client itself only hands on what the connection's ping gives
  (lemma \<open>client_ping_delegates\<close>).
\<close>

theorem ping_never_raises:
  "\<exists>r. client_ping
          (this \<lparr> connection := (connection this) \<lparr> conn_ping := connection_ping_spec transport \<rparr> \<rparr>) tr
        = (Inr r, tr @ [ConnPing])
      \<and> success r = (case transport tr of Inr u \<Rightarrow> True | Inl e \<Rightarrow> False)
      \<and> error r = (case transport tr of Inr u \<Rightarrow> None | Inl e \<Rightarrow> Some e)"
  by (simp add: client_ping_def connection_ping_spec_def split: sum.splits)

text \<open>A refused connection is reported inside the result.\<close>

theorem ping_never_raises_witness:
  "\<exists>r. client_ping
          (sample_client \<lparr> connection :=
             (connection sample_client)
               \<lparr> conn_ping := connection_ping_spec (\<lambda>tr. Inl (Error (lit ''ECONNREFUSED''))) \<rparr> \<rparr>) []
        = (Inr r, [ConnPing])
      \<and> success r = False \<and> error r = Some (Error (lit ''ECONNREFUSED''))"
  using ping_never_raises [where this = sample_client
        and transport = "\<lambda>tr. Inl (Error (lit ''ECONNREFUSED''))" and tr = "[]"]
  by simp

text \<open>
  C10. White space around the table name changes nothing in what \<open>insert\<close> does: for
  white space \<open>ws1\<close> and \<open>ws2\<close>, inserting into \<open>ws1 @ t @ ws2\<close> makes the same
  calls with the same outcome as inserting into \<open>t\<close>. The one statement that reaches
  the connection, once the values are validated and encoded, is
  \<open>INSERT INTO <trimmed t> FORMAT <fmt>\<close>; for a name \<open>t\<close> that neither starts nor
  ends with white space that is \<open>INSERT INTO <t> FORMAT <fmt>\<close>, the name as it is,
  interior characters included.
\<close>

theorem insert_statement_trims_table:
  assumes "\<forall>c\<in>set ws1 \<union> set ws2. js_whitespace c"
  shows "(let fmt = falsy_or (InsertParams.format p) (lit ''JSONCompactEachRow'');
              vals = InsertParams.values' p;
              tr1 = tr @ [ValidateInsertValues vals fmt];
              padded = client_insert this (p \<lparr> table := ws1 @ t @ ws2 \<rparr>) tr;
              sent = (\<lambda>name.
                case validateInsertValues (valuesEncoder this) vals fmt tr of
                  Inl e \<Rightarrow> []
                | Inr u \<Rightarrow>
                    (case encodeValues (valuesEncoder this) vals fmt tr1 of
                       Inl e \<Rightarrow> []
                     | Inr v \<Rightarrow> [Some (lit ''INSERT INTO '' @ name @ lit '' FORMAT '' @ fmt)]))
          in padded = client_insert this (p \<lparr> table := t \<rparr>) tr
           \<and> map sent_query (filter is_request (new_events tr padded)) = sent (trim t)
           \<and> (t = [] \<or> \<not> js_whitespace (hd t) \<and> \<not> js_whitespace (last t) \<longrightarrow>
                map sent_query (filter is_request (new_events tr padded)) = sent t))"
proof -
  have tt: "trim (ws1 @ t @ ws2) = trim t"
    using assms by (intro trim_whitespace_around) auto
  then have st: "\<And>f. insert_statement (ws1 @ t @ ws2) f = insert_statement t f"
    by (simp add: insert_statement_def)
  have same: "client_insert this (p \<lparr> table := ws1 @ t @ ws2 \<rparr>) tr
      = client_insert this (p \<lparr> table := t \<rparr>) tr"
    by (simp add: client_insert_cases Let_def st getQueryParams_def split: sum.splits)
  have sent: "\<And>name. trim t = name \<Longrightarrow>
      map sent_query (filter is_request
        (new_events tr (client_insert this (p \<lparr> table := ws1 @ t @ ws2 \<rparr>) tr)))
      = (case validateInsertValues (valuesEncoder this) (InsertParams.values' p)
              (falsy_or (InsertParams.format p) (lit ''JSONCompactEachRow'')) tr of
           Inl e \<Rightarrow> []
         | Inr u \<Rightarrow>
             (case encodeValues (valuesEncoder this) (InsertParams.values' p)
                  (falsy_or (InsertParams.format p) (lit ''JSONCompactEachRow''))
                  (tr @ [ValidateInsertValues (InsertParams.values' p)
                     (falsy_or (InsertParams.format p) (lit ''JSONCompactEachRow''))]) of
                Inl e \<Rightarrow> []
              | Inr v \<Rightarrow> [Some (lit ''INSERT INTO '' @ name @ lit '' FORMAT '' @
                              falsy_or (InsertParams.format p) (lit ''JSONCompactEachRow''))]))"
    by (auto simp add: new_events_def client_insert_cases Let_def insert_request_def
        insert_statement_def tt split: sum.splits)
  show ?thesis
    unfolding Let_def
  proof (intro conjI impI)
    show "client_insert this (p \<lparr> table := ws1 @ t @ ws2 \<rparr>) tr
        = client_insert this (p \<lparr> table := t \<rparr>) tr"
      by (rule same)
  next
    show "map sent_query (filter is_request
          (new_events tr (client_insert this (p \<lparr> table := ws1 @ t @ ws2 \<rparr>) tr)))
        = (case validateInsertValues (valuesEncoder this) (InsertParams.values' p)
                (falsy_or (InsertParams.format p) (lit ''JSONCompactEachRow'')) tr of
             Inl e \<Rightarrow> []
           | Inr u \<Rightarrow>
               (case encodeValues (valuesEncoder this) (InsertParams.values' p)
                    (falsy_or (InsertParams.format p) (lit ''JSONCompactEachRow''))
                    (tr @ [ValidateInsertValues (InsertParams.values' p)
                       (falsy_or (InsertParams.format p) (lit ''JSONCompactEachRow''))]) of
                  Inl e \<Rightarrow> []
                | Inr v \<Rightarrow> [Some (lit ''INSERT INTO '' @ trim t @ lit '' FORMAT '' @
                                falsy_or (InsertParams.format p) (lit ''JSONCompactEachRow''))]))"
      by (rule sent [OF refl])
  next
    assume "t = [] \<or> \<not> js_whitespace (hd t) \<and> \<not> js_whitespace (last t)"
    then have "trim t = t"
      by (rule trim_clean)
    then show "map sent_query (filter is_request
          (new_events tr (client_insert this (p \<lparr> table := ws1 @ t @ ws2 \<rparr>) tr)))
        = (case validateInsertValues (valuesEncoder this) (InsertParams.values' p)
                (falsy_or (InsertParams.format p) (lit ''JSONCompactEachRow'')) tr of
             Inl e \<Rightarrow> []
           | Inr u \<Rightarrow>
               (case encodeValues (valuesEncoder this) (InsertParams.values' p)
                    (falsy_or (InsertParams.format p) (lit ''JSONCompactEachRow''))
                    (tr @ [ValidateInsertValues (InsertParams.values' p)
                       (falsy_or (InsertParams.format p) (lit ''JSONCompactEachRow''))]) of
                  Inl e \<Rightarrow> []
                | Inr v \<Rightarrow> [Some (lit ''INSERT INTO '' @ t @ lit '' FORMAT '' @
                                falsy_or (InsertParams.format p) (lit ''JSONCompactEachRow''))]))"
      by (rule sent)
  qed
qed

text \<open>
  On the sample client the table names \<open>"  t  "\<close> and \<open>"t"\<close> both send
  \<open>INSERT INTO t FORMAT JSONCompactEachRow\<close>, and \<open>" a b "\<close> sends the name
  \<open>a b\<close> with its interior blank.
\<close>

theorem insert_statement_trims_table_witness:
  "client_insert sample_client (insert_params (lit ''  t  '') [7] None) []
     = client_insert sample_client (insert_params (lit ''t'') [7] None) []
   \<and> map sent_query (filter is_request (new_events []
        (client_insert sample_client (insert_params (lit ''  t  '') [7] None) [])))
     = [Some (lit ''INSERT INTO t FORMAT JSONCompactEachRow'')]
   \<and> map sent_query (filter is_request (new_events []
        (client_insert sample_client (insert_params (lit '' a b '') [7] None) [])))
     = [Some (lit ''INSERT INTO a b FORMAT JSONCompactEachRow'')]"
proof -
  have ws: "\<forall>c\<in>set (lit ''  '') \<union> set (lit ''  ''). js_whitespace c"
    "\<forall>c\<in>set (lit '' '') \<union> set (lit '' ''). js_whitespace c"
    by (simp_all add: lit_def js_whitespace_def)
  have clean: "lit ''t'' = [] \<or> \<not> js_whitespace (hd (lit ''t'')) \<and> \<not> js_whitespace (last (lit ''t''))"
    "lit ''a b'' = [] \<or> \<not> js_whitespace (hd (lit ''a b'')) \<and> \<not> js_whitespace (last (lit ''a b''))"
    by (simp_all add: lit_def js_whitespace_def)
  have cat: "lit ''  '' @ lit ''t'' @ lit ''  '' = lit ''  t  ''"
    "lit '' '' @ lit ''a b'' @ lit '' '' = lit '' a b ''"
    "lit ''INSERT INTO '' @ lit ''t'' @ lit '' FORMAT '' @ lit ''JSONCompactEachRow''
       = lit ''INSERT INTO t FORMAT JSONCompactEachRow''"
    "lit ''INSERT INTO '' @ lit ''a b'' @ lit '' FORMAT '' @ lit ''JSONCompactEachRow''
       = lit ''INSERT INTO a b FORMAT JSONCompactEachRow''"
    by (simp_all add: lit_def)
  have upd: "\<And>x y v. (insert_params y v None) \<lparr> table := x \<rparr> = insert_params x v None"
    by (simp add: insert_params_def)
  have run: "\<And>x. falsy_or (InsertParams.format (insert_params x [7] None)) (lit ''JSONCompactEachRow'')
        = lit ''JSONCompactEachRow''"
    "\<And>x f tr. validateInsertValues (valuesEncoder sample_client)
        (InsertParams.values' (insert_params x [7] None)) f tr = Inr ()"
    "\<And>x f tr. encodeValues (valuesEncoder sample_client)
        (InsertParams.values' (insert_params x [7] None)) f tr = Inr (PayloadString (lit ''rows''))"
    by (simp_all add: falsy_or_def insert_params_def sample_client_def sample_impl_def)
  note f = insert_statement_trims_table [OF ws(1), where t = "lit ''t''"
      and this = sample_client and p = "insert_params (lit ''x'') [7] None" and tr = "[]",
      unfolded Let_def]
  note g = insert_statement_trims_table [OF ws(2), where t = "lit ''a b''"
      and this = sample_client and p = "insert_params (lit ''x'') [7] None" and tr = "[]",
      unfolded Let_def]
  have 1: "client_insert sample_client (insert_params (lit ''  t  '') [7] None) []
      = client_insert sample_client (insert_params (lit ''t'') [7] None) []"
    using f [THEN conjunct1] by (simp add: cat upd)
  have 2: "map sent_query (filter is_request (new_events []
        (client_insert sample_client (insert_params (lit ''  t  '') [7] None) [])))
      = [Some (lit ''INSERT INTO t FORMAT JSONCompactEachRow'')]"
    using f [THEN conjunct2, THEN conjunct2] clean(1) by (simp add: cat upd run)
  have 3: "map sent_query (filter is_request (new_events []
        (client_insert sample_client (insert_params (lit '' a b '') [7] None) [])))
      = [Some (lit ''INSERT INTO a b FORMAT JSONCompactEachRow'')]"
    using g [THEN conjunct2, THEN conjunct2] clean(2) by (simp add: cat upd run)
  from 1 2 3 show ?thesis
    by blast
qed

end
